theory Spec2Isabelle
  imports Complex_Main
begin

section \<open>Python values\<close>

text \<open>
  The handlers of \<^verbatim>\<open>app.py\<close> work on decoded JSON and on whatever the retriever
  returns, so values are dynamically typed. A Python \<^verbatim>\<open>str\<close> is a list of 8-bit
  characters (text in the Latin-1 range); a \<^verbatim>\<open>dict\<close> with string keys is an
  association list in insertion order, looked up with \<open>map_of\<close>; a finite float is the
  rational it denotes.
\<close>

datatype pyfloat = Finite rat | NaN | Infinity bool

datatype pyval =
    PNone
  | PBool bool
  | PInt int
  | PFloat pyfloat
  | PStr string
  | PList "pyval list"
  | PDict "(string \<times> pyval) list"

datatype exn =
    TypeError
  | ValueError
  | OverflowError
  | AttributeError
  | KeyError
  | BadRequest
  | JSONDecodeError
  | Upstream string

text \<open>Truth value testing, as \<^verbatim>\<open>not x\<close> and \<^verbatim>\<open>if x:\<close> use it.\<close>

fun truthy :: "pyval \<Rightarrow> bool" where
  "truthy PNone = False"
| "truthy (PBool b) = b"
| "truthy (PInt i) = (i \<noteq> 0)"
| "truthy (PFloat f) = (f \<noteq> Finite 0)"
| "truthy (PStr s) = (s \<noteq> [])"
| "truthy (PList xs) = (xs \<noteq> [])"
| "truthy (PDict kvs) = (kvs \<noteq> [])"

text \<open>\<^verbatim>\<open>obj.get(key, default)\<close>: only a dict has the method.\<close>

fun py_get :: "pyval \<Rightarrow> string \<Rightarrow> pyval \<Rightarrow> exn + pyval" where
  "py_get (PDict kvs) k d = Inr (case map_of kvs k of None \<Rightarrow> d | Some v \<Rightarrow> v)"
| "py_get _ k d = Inl AttributeError"

text \<open>\<^verbatim>\<open>obj[key]\<close> with a string key: a missing key raises, and so does every value
  that is not a dict.\<close>

fun py_getitem :: "pyval \<Rightarrow> string \<Rightarrow> exn + pyval" where
  "py_getitem (PDict kvs) k = (case map_of kvs k of None \<Rightarrow> Inl KeyError | Some v \<Rightarrow> Inr v)"
| "py_getitem _ k = Inl TypeError"

text \<open>\<^verbatim>\<open>for m in obj\<close>: a list yields its elements, a dict its keys, a string its
  characters; nothing else is iterable.\<close>

fun py_iter :: "pyval \<Rightarrow> exn + pyval list" where
  "py_iter (PList xs) = Inr xs"
| "py_iter (PDict kvs) = Inr (map (\<lambda>kv. PStr (fst kv)) kvs)"
| "py_iter (PStr s) = Inr (map (\<lambda>c. PStr [c]) s)"
| "py_iter _ = Inl TypeError"

subsection \<open>Strings\<close>

text \<open>\<^verbatim>\<open>str.isspace\<close> on one character of the Latin-1 range.\<close>

definition isspace :: "char \<Rightarrow> bool" where
  "isspace c = (let n = (of_char c :: nat) in
     (9 \<le> n \<and> n \<le> 13) \<or> (28 \<le> n \<and> n \<le> 32) \<or> n = 133 \<or> n = 160)"

definition strip :: "string \<Rightarrow> string" where
  "strip s = rev (dropWhile isspace (rev (dropWhile isspace s)))"

fun py_strip :: "pyval \<Rightarrow> exn + string" where
  "py_strip (PStr s) = Inr (strip s)"
| "py_strip _ = Inl AttributeError"

text \<open>\<^verbatim>\<open>sep.join(xs)\<close> on strings.\<close>

fun join :: "string \<Rightarrow> string list \<Rightarrow> string" where
  "join sep [] = []"
| "join sep [x] = x"
| "join sep (x # y # ys) = x @ sep @ join sep (y # ys)"

text \<open>\<^verbatim>\<open>sep.join(xs)\<close> on arbitrary values: an element that is not a string raises.\<close>

fun as_strs :: "pyval list \<Rightarrow> exn + string list" where
  "as_strs [] = Inr []"
| "as_strs (PStr s # vs) = (case as_strs vs of Inl e \<Rightarrow> Inl e | Inr ss \<Rightarrow> Inr (s # ss))"
| "as_strs (_ # vs) = Inl TypeError"

definition py_join :: "string \<Rightarrow> pyval list \<Rightarrow> exn + string" where
  "py_join sep vs = (case as_strs vs of Inl e \<Rightarrow> Inl e | Inr ss \<Rightarrow> Inr (join sep ss))"

text \<open>\<^verbatim>\<open>s.split("\n")\<close>: the pieces between newlines, empty ones kept.\<close>

fun split_nl :: "string \<Rightarrow> string list" where
  "split_nl [] = [[]]"
| "split_nl (c # cs) =
     (if c = CHR 0x0A then [] # split_nl cs
      else (case split_nl cs of [] \<Rightarrow> [[c]] | l # ls \<Rightarrow> (c # l) # ls))"

text \<open>Decimal digits of a number, for \<^verbatim>\<open>str(n)\<close> and f-strings.\<close>

function str_nat :: "nat \<Rightarrow> string" where
  "str_nat n = (if n < 10 then [''0123456789'' ! n]
                else str_nat (n div 10) @ [''0123456789'' ! (n mod 10)])"
  by pat_completeness auto
termination
  by (relation "measure id") auto

definition str_int :: "int \<Rightarrow> string" where
  "str_int i = (if i < 0 then CHR ''-'' # str_nat (nat (- i)) else str_nat (nat i))"

section \<open>The collaborators\<close>

text \<open>
  The parser, the chunker, the embedding client, the vector index, the retriever and the
  answer generator live in \<^verbatim>\<open>services/\<close>; \<^verbatim>\<open>uuid\<close>, \<^verbatim>\<open>json\<close> and
  \<^verbatim>\<open>werkzeug\<close> are libraries. The handlers take all of them as parameters: each is a
  function of its arguments that returns a value or raises. What the runtime prints for
  a float or a container (\<open>repr_other\<close>), how \<^verbatim>\<open>int()\<close> reads a string
  (\<open>int_of_str\<close>) and the text of an exception (\<open>exc_str\<close>) are parameters too.
\<close>

record file_storage =
  filename :: string
  stream :: string

record env =
  UPLOAD_DIR :: string
  uuid4 :: string
  secure_filename :: "string \<Rightarrow> string"
  save :: "file_storage \<Rightarrow> string \<Rightarrow> exn + unit"
  extract_text :: "string \<Rightarrow> string list \<times> exn option"
  split_text :: "string \<Rightarrow> nat \<Rightarrow> nat \<Rightarrow> exn + (int \<times> string) list"
  embed_texts :: "string list \<Rightarrow> string \<Rightarrow> exn + pyval list"
  upsert :: "pyval list \<Rightarrow> string \<Rightarrow> exn + unit"
  query_chunks :: "pyval \<Rightarrow> string \<Rightarrow> int \<Rightarrow> exn + pyval"
  answer_with_context :: "string \<Rightarrow> string \<Rightarrow> rat \<Rightarrow> exn + string"
  json_loads :: "string \<Rightarrow> exn + pyval"
  int_of_str :: "string \<Rightarrow> int option"
  repr_other :: "pyval \<Rightarrow> string"
  exc_str :: "exn \<Rightarrow> string"

text \<open>\<^verbatim>\<open>int(x)\<close>.\<close>

fun py_int :: "env \<Rightarrow> pyval \<Rightarrow> exn + int" where
  "py_int env PNone = Inl TypeError"
| "py_int env (PBool b) = Inr (if b then 1 else 0)"
| "py_int env (PInt i) = Inr i"
| "py_int env (PFloat (Finite r)) = Inr (if 0 \<le> r then \<lfloor>r\<rfloor> else \<lceil>r\<rceil>)"
| "py_int env (PFloat NaN) = Inl ValueError"
| "py_int env (PFloat (Infinity s)) = Inl OverflowError"
| "py_int env (PStr s) = (case int_of_str env s of None \<Rightarrow> Inl ValueError | Some i \<Rightarrow> Inr i)"
| "py_int env (PList xs) = Inl TypeError"
| "py_int env (PDict kvs) = Inl TypeError"

text \<open>What an f-string puts for \<^verbatim>\<open>{x}\<close>, that is \<^verbatim>\<open>str(x)\<close>.\<close>

fun py_str :: "env \<Rightarrow> pyval \<Rightarrow> string" where
  "py_str env PNone = ''None''"
| "py_str env (PBool b) = (if b then ''True'' else ''False'')"
| "py_str env (PInt i) = str_int i"
| "py_str env (PStr s) = s"
| "py_str env v = repr_other env v"

section \<open>Effects\<close>

text \<open>
  A handler's run is its outcome together with the calls it made to the collaborators, in
  order. An exception ends the run and keeps the calls made so far.
\<close>

datatype event =
    Uuid4
  | Save string
  | ExtractText string
  | SplitText string nat nat
  | EmbedTexts "string list" string
  | Upsert "pyval list" string
  | QueryChunks pyval string int
  | AnswerWithContext string string rat

type_synonym 'a comp = "(exn + 'a) \<times> event list"

definition ret :: "'a \<Rightarrow> 'a comp" where
  "ret x = (Inr x, [])"

definition lift :: "exn + 'a \<Rightarrow> 'a comp" where
  "lift r = (r, [])"

definition call :: "event \<Rightarrow> exn + 'a \<Rightarrow> 'a comp" where
  "call ev r = (r, [ev])"

definition bnd :: "'a comp \<Rightarrow> ('a \<Rightarrow> 'b comp) \<Rightarrow> 'b comp" where
  "bnd m f = (case m of
       (Inl e, tr) \<Rightarrow> (Inl e, tr)
     | (Inr x, tr) \<Rightarrow> (case f x of (r, tr') \<Rightarrow> (r, tr @ tr')))"

fun map_e :: "('a \<Rightarrow> exn + 'b) \<Rightarrow> 'a list \<Rightarrow> exn + 'b list" where
  "map_e f [] = Inr []"
| "map_e f (x # xs) =
     (case f x of Inl e \<Rightarrow> Inl e
      | Inr y \<Rightarrow> (case map_e f xs of Inl e \<Rightarrow> Inl e | Inr ys \<Rightarrow> Inr (y # ys)))"

text \<open>
  A response is what \<^verbatim>\<open>jsonify\<close> built, with its status, or an exception that left
  the handler. Flask answers an escaped \<^verbatim>\<open>BadRequest\<close> with 400 and any other
  exception with 500.
\<close>

datatype response = Json pyval nat | Failure exn

fun status_code :: "response \<Rightarrow> nat" where
  "status_code (Json b s) = s"
| "status_code (Failure e) = (if e = BadRequest then 400 else 500)"

definition run :: "response comp \<Rightarrow> response \<times> event list" where
  "run m = (case m of (Inl e, tr) \<Rightarrow> (Failure e, tr) | (Inr r, tr) \<Rightarrow> (r, tr))"

text \<open>\<^verbatim>\<open>request.get_json(force=True)\<close>: the decoded body, \<open>None\<close> standing for a
  body that is not JSON.\<close>

definition get_json :: "pyval option \<Rightarrow> pyval comp" where
  "get_json req = (case req of None \<Rightarrow> lift (Inl BadRequest) | Some v \<Rightarrow> ret v)"

section \<open>/ask\<close>

definition NL2 :: string where
  "NL2 = [CHR 0x0A, CHR 0x0A]"

text \<open>The source's answer has U+2019 for the apostrophe, written here as its UTF-8 bytes.\<close>

definition not_found_answer :: string where
  "not_found_answer = ''I couldn'' @ [CHR 0xE2, CHR 0x80, CHR 0x99] @ ''t find this in your notes.''"

definition context_block :: "env \<Rightarrow> pyval \<Rightarrow> exn + string" where
  "context_block env m =
     (case py_getitem m ''metadata'' of Inl e \<Rightarrow> Inl e | Inr meta \<Rightarrow>
      (case py_get meta ''text'' (PStr []) of Inl e \<Rightarrow> Inl e | Inr snippet \<Rightarrow>
      (case py_get meta ''chunk_id'' PNone of Inl e \<Rightarrow> Inl e | Inr cid \<Rightarrow>
      (case py_get meta ''filename'' PNone of Inl e \<Rightarrow> Inl e | Inr fn \<Rightarrow>
         Inr (''[chunk '' @ py_str env cid @ '' from '' @ py_str env fn @ ''] ''
              @ py_str env snippet)))))"

definition citation :: "pyval \<Rightarrow> exn + pyval" where
  "citation m =
     (case py_getitem m ''metadata'' of Inl e \<Rightarrow> Inl e | Inr meta \<Rightarrow>
      (case py_get meta ''doc_id'' PNone of Inl e \<Rightarrow> Inl e | Inr d \<Rightarrow>
      (case py_get meta ''filename'' PNone of Inl e \<Rightarrow> Inl e | Inr fn \<Rightarrow>
      (case py_get meta ''chunk_id'' PNone of Inl e \<Rightarrow> Inl e | Inr cid \<Rightarrow>
      (case py_get m ''score'' PNone of Inl e \<Rightarrow> Inl e | Inr sc \<Rightarrow>
         Inr (PDict [(''doc_id'', d), (''filename'', fn), (''chunk_id'', cid),
                     (''score'', sc)]))))))"

definition ask :: "env \<Rightarrow> pyval option \<Rightarrow> response \<times> event list" where
  "ask env req = run (
     bnd (get_json req) (\<lambda>body.
     bnd (lift (py_get body ''student_id'' PNone)) (\<lambda>student_id.
     bnd (lift (py_get body ''question'' (PStr []))) (\<lambda>q.
     bnd (lift (py_strip q)) (\<lambda>question.
     bnd (lift (py_get body ''top_k'' (PInt 6))) (\<lambda>tk.
     bnd (lift (py_int env tk)) (\<lambda>top_k.
     if \<not> truthy student_id \<or> question = []
     then ret (Json (PDict [(''error'', PStr ''student_id and question are required'')]) 400)
     else
     bnd (call (QueryChunks student_id question top_k)
               (query_chunks env student_id question top_k)) (\<lambda>result.
     bnd (lift (py_get result ''matches'' (PList []))) (\<lambda>matches.
     if \<not> truthy matches
     then ret (Json (PDict [(''answer'', PStr not_found_answer),
                            (''context_used'', PList [])]) 200)
     else
     bnd (lift (py_iter matches)) (\<lambda>ms.
     bnd (lift (map_e (context_block env) ms)) (\<lambda>context_blocks.
     bnd (call (AnswerWithContext question (join NL2 context_blocks) (2 / 10))
               (answer_with_context env question (join NL2 context_blocks) (2 / 10)))
         (\<lambda>answer.
     bnd (lift (map_e citation ms)) (\<lambda>citations.
     ret (Json (PDict [(''answer'', PStr answer),
                       (''context_used'', PList citations)]) 200))))))))))))))"

section \<open>/summarize\<close>

text \<open>The loop of \<^verbatim>\<open>summarize\<close> builds the same tagged block as the one of
  \<^verbatim>\<open>ask\<close>, so \<open>context_block\<close> serves both.\<close>

definition summarize_prompt :: "string \<Rightarrow> string" where
  "summarize_prompt topic =
     ''Summarize the topic: '' @ topic @ '' using ONLY the context below. ''
     @ ''Produce a concise, exam-oriented summary with bullet points and key definitions.''"

definition summarize :: "env \<Rightarrow> pyval option \<Rightarrow> response \<times> event list" where
  "summarize env req = run (
     bnd (get_json req) (\<lambda>body.
     bnd (lift (py_get body ''student_id'' PNone)) (\<lambda>student_id.
     bnd (lift (py_get body ''topic'' (PStr []))) (\<lambda>t.
     bnd (lift (py_strip t)) (\<lambda>topic.
     bnd (lift (py_get body ''top_k'' (PInt 12))) (\<lambda>tk.
     bnd (lift (py_int env tk)) (\<lambda>top_k.
     if \<not> truthy student_id \<or> topic = []
     then ret (Json (PDict [(''error'', PStr ''student_id and topic are required'')]) 400)
     else
     bnd (call (QueryChunks student_id topic top_k)
               (query_chunks env student_id topic top_k)) (\<lambda>result.
     bnd (lift (py_get result ''matches'' (PList []))) (\<lambda>matches.
     if \<not> truthy matches
     then ret (Json (PDict [(''summary'', PStr ''No relevant notes found to summarize.'')]) 200)
     else
     bnd (lift (py_iter matches)) (\<lambda>ms.
     bnd (lift (map_e (context_block env) ms)) (\<lambda>parts.
     bnd (call (AnswerWithContext (summarize_prompt topic) (join NL2 parts) (2 / 10))
               (answer_with_context env (summarize_prompt topic) (join NL2 parts) (2 / 10)))
         (\<lambda>summary.
     ret (Json (PDict [(''topic'', PStr topic), (''summary'', PStr summary)]) 200)))))))))))))"

section \<open>/flashcards\<close>

definition flashcards_prompt :: "string \<Rightarrow> string \<Rightarrow> string" where
  "flashcards_prompt topic ctx =
     ''Generate 6-8 flashcards for medical exam preparation about **'' @ topic @ ''**. ''
     @ ''If context is available, use ONLY that. If not, use general medical knowledge. ''
     @ ''Each flashcard must be a JSON object with '' @ [CHR 0x27] @ ''question''
     @ [CHR 0x27] @ '' and '' @ [CHR 0x27] @ ''answer'' @ [CHR 0x27] @ ''. ''
     @ ''Return ONLY a valid JSON list. Example:'' @ [CHR 0x0A]
     @ ''[{'' @ [CHR 0x22] @ ''question'' @ [CHR 0x22] @ '': '' @ [CHR 0x22] @ ''What is X?''
     @ [CHR 0x22] @ '', '' @ [CHR 0x22] @ ''answer'' @ [CHR 0x22] @ '': '' @ [CHR 0x22]
     @ ''Y'' @ [CHR 0x22] @ ''}]'' @ NL2
     @ ''Context:'' @ [CHR 0x0A] @ ctx"

definition match_text :: "pyval \<Rightarrow> exn + pyval" where
  "match_text m =
     (case py_getitem m ''metadata'' of Inl e \<Rightarrow> Inl e
      | Inr meta \<Rightarrow> py_get meta ''text'' (PStr []))"

text \<open>The context: the matches' texts, or the placeholder when there is no match.\<close>

definition flashcards_ctx :: "string \<Rightarrow> pyval \<Rightarrow> exn + string" where
  "flashcards_ctx topic matches =
     (if truthy matches
      then (case py_iter matches of Inl e \<Rightarrow> Inl e | Inr ms \<Rightarrow>
            (case map_e match_text ms of Inl e \<Rightarrow> Inl e | Inr ts \<Rightarrow> py_join NL2 ts))
      else Inr (''General notes about '' @ topic))"

text \<open>The inner \<^verbatim>\<open>try\<close>: the decoded response, or on any exception of
  \<^verbatim>\<open>json.loads\<close> the lines that hold a question mark.\<close>

definition parse_flashcards :: "env \<Rightarrow> string \<Rightarrow> pyval" where
  "parse_flashcards env response =
     (case json_loads env response of
        Inr v \<Rightarrow> v
      | Inl e \<Rightarrow> PList (map (\<lambda>line. PDict [(''question'', PStr (strip line)),
                                               (''answer'', PStr [])])
                           (filter (\<lambda>line. CHR ''?'' \<in> set line) (split_nl response))))"

text \<open>The outer \<^verbatim>\<open>try\<close>: any exception becomes a 500 with its text.\<close>

definition run_catching :: "env \<Rightarrow> response comp \<Rightarrow> response \<times> event list" where
  "run_catching env m = (case m of
       (Inl e, tr) \<Rightarrow> (Json (PDict [(''error'', PStr (exc_str env e))]) 500, tr)
     | (Inr r, tr) \<Rightarrow> (r, tr))"

definition flashcards :: "env \<Rightarrow> pyval option \<Rightarrow> response \<times> event list" where
  "flashcards env req = run_catching env (
     bnd (get_json req) (\<lambda>body.
     bnd (lift (py_get body ''student_id'' PNone)) (\<lambda>student_id.
     bnd (lift (py_get body ''topic'' PNone)) (\<lambda>t.
     bnd (lift (py_strip (if truthy t then t else PStr []))) (\<lambda>topic.
     bnd (lift (py_get body ''top_k'' (PInt 10))) (\<lambda>tk.
     bnd (lift (py_int env tk)) (\<lambda>top_k.
     if \<not> truthy student_id \<or> topic = []
     then ret (Json (PDict [(''error'', PStr ''student_id and topic are required'')]) 400)
     else
     bnd (call (QueryChunks student_id topic top_k)
               (query_chunks env student_id topic top_k)) (\<lambda>result.
     bnd (lift (py_get result ''matches'' (PList []))) (\<lambda>matches.
     bnd (lift (flashcards_ctx topic matches)) (\<lambda>ctx.
     bnd (call (AnswerWithContext (flashcards_prompt topic ctx) ctx (3 / 10))
               (answer_with_context env (flashcards_prompt topic ctx) ctx (3 / 10)))
         (\<lambda>response.
     ret (Json (PDict [(''flashcards'', parse_flashcards env response)]) 200))))))))))))"

section \<open>/upload\<close>

text \<open>\<^verbatim>\<open>os.path.splitext\<close> on a POSIX path: the extension starts at the last dot
  after the last slash, unless only dots precede it in the file name.\<close>

definition rfind :: "char \<Rightarrow> string \<Rightarrow> int" where
  "rfind c s = (if c \<in> set s
                then int (length s) - 1 - int (length (takeWhile (\<lambda>x. x \<noteq> c) (rev s)))
                else - 1)"

definition splitext :: "string \<Rightarrow> string \<times> string" where
  "splitext p =
     (let sepIndex = rfind CHR ''/'' p; dotIndex = rfind CHR ''.'' p in
      if dotIndex > sepIndex \<and>
         list_ex (\<lambda>c. c \<noteq> CHR ''.'')
           (take (nat (dotIndex - (sepIndex + 1))) (drop (nat (sepIndex + 1)) p))
      then (take (nat dotIndex) p, drop (nat dotIndex) p)
      else (p, []))"

text \<open>\<^verbatim>\<open>str.lower\<close> on one character of the Latin-1 range.\<close>

definition lower_char :: "char \<Rightarrow> char" where
  "lower_char c = (let n = (of_char c :: nat) in
     if (65 \<le> n \<and> n \<le> 90) \<or> (192 \<le> n \<and> n \<le> 222 \<and> n \<noteq> 215)
     then char_of (n + 32) else c)"

definition lower :: "string \<Rightarrow> string" where
  "lower s = map lower_char s"

definition ALLOWED_EXT :: "string set" where
  "ALLOWED_EXT = {''.pdf'', ''.docx'', ''.txt'', ''.md''}"

definition allowed :: "string \<Rightarrow> bool" where
  "allowed fname = (lower (snd (splitext fname)) \<in> ALLOWED_EXT)"

text \<open>\<^verbatim>\<open>os.path.join\<close> of two POSIX paths.\<close>

definition path_join :: "string \<Rightarrow> string \<Rightarrow> string" where
  "path_join a b =
     (if b \<noteq> [] \<and> hd b = CHR ''/'' then b
      else if a = [] \<or> last a = CHR ''/'' then a @ b
      else a @ ''/'' @ b)"

text \<open>One record of \<open>vectors_to_upsert\<close>.\<close>

definition vector_record :: "string \<Rightarrow> string \<Rightarrow> nat \<Rightarrow> string \<Rightarrow> pyval \<Rightarrow> pyval" where
  "vector_record file_id fname chunk_counter text vec =
     PDict [(''id'', PStr (file_id @ ''-'' @ str_int (int chunk_counter))),
            (''values'', vec),
            (''metadata'', PDict [(''doc_id'', PStr file_id),
                                  (''filename'', PStr fname),
                                  (''chunk_id'', PInt (int chunk_counter)),
                                  (''text'', PStr (take 1200 text))])]"

text \<open>The inner loop, over \<^verbatim>\<open>zip(page_chunks, vectors)\<close>; the state is the list built
  so far and the counter.\<close>

fun add_chunks :: "string \<Rightarrow> string \<Rightarrow> ((int \<times> string) \<times> pyval) list
                   \<Rightarrow> pyval list \<times> nat \<Rightarrow> pyval list \<times> nat" where
  "add_chunks file_id fname [] acc = acc"
| "add_chunks file_id fname (((chunk_id, text), vec) # rest) (vs, k) =
     add_chunks file_id fname rest (vs @ [vector_record file_id fname k text vec], Suc k)"

text \<open>The outer loop, over the pages the parser yields; \<open>fail\<close> is the exception the
  parser raises after its last page, if any.\<close>

fun upload_pages :: "env \<Rightarrow> string \<Rightarrow> string \<Rightarrow> string list \<Rightarrow> exn option
                     \<Rightarrow> pyval list \<times> nat \<Rightarrow> (pyval list \<times> nat) comp" where
  "upload_pages env file_id fname [] fail acc =
     (case fail of None \<Rightarrow> ret acc | Some e \<Rightarrow> lift (Inl e))"
| "upload_pages env file_id fname (page_text # pages) fail acc =
     bnd (call (SplitText page_text 1000 200) (split_text env page_text 1000 200))
       (\<lambda>page_chunks.
     bnd (call (EmbedTexts (map snd page_chunks) ''retrieval_document'')
               (embed_texts env (map snd page_chunks) ''retrieval_document''))
       (\<lambda>vectors.
     upload_pages env file_id fname pages fail
       (add_chunks file_id fname (zip page_chunks vectors) acc)))"

text \<open>A form field is a string or absent; a \<^verbatim>\<open>FileStorage\<close> is true when its
  filename is not empty.\<close>

definition upload :: "env \<Rightarrow> string option \<Rightarrow> file_storage option \<Rightarrow> response \<times> event list"
  where
  "upload env student_id f = run (
     case (student_id, f) of
       (Some sid, Some fs) \<Rightarrow>
         if sid = [] \<or> filename fs = []
         then ret (Json (PDict [(''error'', PStr ''student_id and file are required'')]) 400)
         else
         (let fname = secure_filename env (filename fs) in
          bnd (call Uuid4 (Inr (uuid4 env))) (\<lambda>file_id.
          let saved_path = path_join (UPLOAD_DIR env) (file_id @ ''_'' @ fname) in
          bnd (call (Save saved_path) (save env fs saved_path)) (\<lambda>_.
          bnd (call (ExtractText saved_path) (Inr (extract_text env saved_path))) (\<lambda>pf.
          bnd (upload_pages env file_id fname (fst pf) (snd pf) ([], 0)) (\<lambda>acc.
          bnd (if fst acc \<noteq> [] then call (Upsert (fst acc) sid) (upsert env (fst acc) sid)
               else ret ()) (\<lambda>_.
          ret (Json (PDict [(''ok'', PBool True),
                            (''doc_id'', PStr file_id),
                            (''num_chunks'', PInt (int (snd acc))),
                            (''filename'', PStr fname)]) 200)))))))
     | _ \<Rightarrow> ret (Json (PDict [(''error'', PStr ''student_id and file are required'')]) 400))"

section \<open>Reading a run\<close>

fun is_answer_call :: "event \<Rightarrow> bool" where
  "is_answer_call (AnswerWithContext p c t) = True"
| "is_answer_call _ = False"

fun is_upsert :: "event \<Rightarrow> bool" where
  "is_upsert (Upsert vs ns) = True"
| "is_upsert _ = False"

text \<open>The contexts handed to the answer generator, and the record lists handed to the
  index, in order.\<close>

fun contexts_passed :: "event list \<Rightarrow> string list" where
  "contexts_passed [] = []"
| "contexts_passed (AnswerWithContext p c t # evs) = c # contexts_passed evs"
| "contexts_passed (_ # evs) = contexts_passed evs"

fun upserted :: "event list \<Rightarrow> pyval list list" where
  "upserted [] = []"
| "upserted (Upsert vs ns # evs) = vs # upserted evs"
| "upserted (_ # evs) = upserted evs"

definition dict_get :: "(string \<times> pyval) list \<Rightarrow> string \<Rightarrow> pyval \<Rightarrow> pyval" where
  "dict_get kvs k d = (case map_of kvs k of None \<Rightarrow> d | Some v \<Rightarrow> v)"

definition body_has_key :: "response \<Rightarrow> string \<Rightarrow> bool" where
  "body_has_key r k = (case r of Json (PDict kvs) s \<Rightarrow> map_of kvs k \<noteq> None | _ \<Rightarrow> False)"

text \<open>A match as the index returns it: a dict whose \<open>metadata\<close> is a dict.\<close>

definition is_match :: "pyval \<Rightarrow> bool" where
  "is_match m = (case m of
       PDict kvs \<Rightarrow> (case map_of kvs ''metadata'' of Some (PDict meta) \<Rightarrow> True | _ \<Rightarrow> False)
     | _ \<Rightarrow> False)"

definition meta_of :: "pyval \<Rightarrow> (string \<times> pyval) list" where
  "meta_of m = (case m of
       PDict kvs \<Rightarrow> (case map_of kvs ''metadata'' of Some (PDict meta) \<Rightarrow> meta | _ \<Rightarrow> [])
     | _ \<Rightarrow> [])"

definition fields_of :: "pyval \<Rightarrow> (string \<times> pyval) list" where
  "fields_of m = (case m of PDict kvs \<Rightarrow> kvs | _ \<Rightarrow> [])"

text \<open>What the specification asks of a context block and of a citation, on a match.\<close>

definition spec_context_block :: "env \<Rightarrow> pyval \<Rightarrow> string" where
  "spec_context_block env m =
     ''[chunk '' @ py_str env (dict_get (meta_of m) ''chunk_id'' PNone)
     @ '' from '' @ py_str env (dict_get (meta_of m) ''filename'' PNone)
     @ ''] '' @ py_str env (dict_get (meta_of m) ''text'' (PStr []))"

definition spec_citation :: "pyval \<Rightarrow> pyval" where
  "spec_citation m =
     PDict [(''doc_id'', dict_get (meta_of m) ''doc_id'' PNone),
            (''filename'', dict_get (meta_of m) ''filename'' PNone),
            (''chunk_id'', dict_get (meta_of m) ''chunk_id'' PNone),
            (''score'', dict_get (fields_of m) ''score'' PNone)]"

text \<open>The text a record of \<open>vectors_to_upsert\<close> stores, its chunk index and its id.\<close>

definition stored_text :: "pyval \<Rightarrow> pyval" where
  "stored_text r = dict_get (meta_of r) ''text'' PNone"

definition stored_chunk_id :: "pyval \<Rightarrow> pyval" where
  "stored_chunk_id r = dict_get (meta_of r) ''chunk_id'' PNone"

definition stored_id :: "pyval \<Rightarrow> pyval" where
  "stored_id r = dict_get (fields_of r) ''id'' PNone"

definition text_bounded :: "pyval \<Rightarrow> bool" where
  "text_bounded r = (case stored_text r of PStr t \<Rightarrow> length t \<le> 1200 | _ \<Rightarrow> False)"

text \<open>The chunks of one page with their vectors, as \<^verbatim>\<open>zip\<close> pairs them, when the
  chunker and the embedding client both return.\<close>

definition page_ok :: "env \<Rightarrow> string \<Rightarrow> bool" where
  "page_ok env page = (case split_text env page 1000 200 of
       Inl e \<Rightarrow> False
     | Inr cs \<Rightarrow> (case embed_texts env (map snd cs) ''retrieval_document'' of
                   Inl e \<Rightarrow> False | Inr vs \<Rightarrow> True))"

definition page_pairs :: "env \<Rightarrow> string \<Rightarrow> ((int \<times> string) \<times> pyval) list" where
  "page_pairs env page = (case split_text env page 1000 200 of
       Inl e \<Rightarrow> []
     | Inr cs \<Rightarrow> (case embed_texts env (map snd cs) ''retrieval_document'' of
                   Inl e \<Rightarrow> [] | Inr vs \<Rightarrow> zip cs vs))"

definition page_events :: "env \<Rightarrow> string \<Rightarrow> event list" where
  "page_events env page = (case split_text env page 1000 200 of
       Inl e \<Rightarrow> [SplitText page 1000 200]
     | Inr cs \<Rightarrow> [SplitText page 1000 200, EmbedTexts (map snd cs) ''retrieval_document''])"

text \<open>The records of a document whose chunks, in production order, are \<open>ps\<close>: the
  \<open>k\<close>-th chunk gets the counter \<open>k\<close>.\<close>

definition records_of :: "string \<Rightarrow> string \<Rightarrow> ((int \<times> string) \<times> pyval) list \<Rightarrow> pyval list"
  where
  "records_of file_id fname ps =
     map (\<lambda>(k, p). vector_record file_id fname k (snd (fst p)) (snd p)) (enumerate 0 ps)"

text \<open>A JSON body's optional \<open>top_k\<close> is absent or something \<^verbatim>\<open>int()\<close> accepts; its
  question or topic is absent or a string; \<open>field_text\<close> is that string stripped, empty
  when the field is absent.\<close>

definition top_k_ok :: "env \<Rightarrow> (string \<times> pyval) list \<Rightarrow> bool" where
  "top_k_ok env kvs = (case map_of kvs ''top_k'' of
       None \<Rightarrow> True
     | Some v \<Rightarrow> (case py_int env v of Inl e \<Rightarrow> False | Inr k \<Rightarrow> True))"

definition field_ok :: "(string \<times> pyval) list \<Rightarrow> string \<Rightarrow> bool" where
  "field_ok kvs k = (case map_of kvs k of None \<Rightarrow> True | Some (PStr s) \<Rightarrow> True | _ \<Rightarrow> False)"

text \<open>/flashcards reads its topic with \<^verbatim>\<open>or ""\<close>, so there any falsy value does as well
  as an absent one.\<close>

definition field_ok_or_falsy :: "(string \<times> pyval) list \<Rightarrow> string \<Rightarrow> bool" where
  "field_ok_or_falsy kvs k = (case map_of kvs k of
       None \<Rightarrow> True | Some (PStr s) \<Rightarrow> True | Some v \<Rightarrow> \<not> truthy v)"

definition field_text :: "(string \<times> pyval) list \<Rightarrow> string \<Rightarrow> string" where
  "field_text kvs k = (case map_of kvs k of Some (PStr s) \<Rightarrow> strip s | _ \<Rightarrow> [])"

section \<open>Test doubles\<close>

text \<open>
  Collaborators for running the handlers on concrete requests. The index knows two chunks
  of student \<open>s1\<close> and nothing of anybody else; the parser yields one page per line
  group, the chunker one chunk per non-empty line; the generator answers flashcard
  prompts with JSON when it is given notes and with prose when it is given the
  placeholder.
\<close>

definition match1 :: pyval where
  "match1 = PDict [(''id'', PStr ''d1-0''),
                   (''score'', PFloat (Finite (9 / 10))),
                   (''metadata'', PDict [(''doc_id'', PStr ''d1''),
                                         (''filename'', PStr ''renal.pdf''),
                                         (''chunk_id'', PInt 0),
                                         (''text'', PStr ''Renin is made in the kidney.'')])]"

definition match2 :: pyval where
  "match2 = PDict [(''id'', PStr ''d2-3''),
                   (''score'', PFloat (Finite (7 / 10))),
                   (''metadata'', PDict [(''doc_id'', PStr ''d2''),
                                         (''filename'', PStr ''cardio.txt''),
                                         (''chunk_id'', PInt 3),
                                         (''text'', PStr ''ACE makes angiotensin II.'')])]"

definition cards_json :: string where
  "cards_json = ''[{\"question\":\"Q1\",\"answer\":\"A1\"}]''"

definition cards_prose :: string where
  "cards_prose = ''Here are some cards:'' @ [CHR 0x0A] @ ''  What is renin?  '' @ [CHR 0x0A]
                 @ ''It is an enzyme.'' @ [CHR 0x0A] @ ''Where is it made?''"

definition digits_value :: "string \<Rightarrow> int option" where
  "digits_value s =
     (if s \<noteq> [] \<and> list_all (\<lambda>c. 48 \<le> (of_char c :: nat) \<and> (of_char c :: nat) \<le> 57) s
      then Some (foldl (\<lambda>a c. 10 * a + (of_char c - 48)) 0 s) else None)"

definition stub_env :: env where
  "stub_env = \<lparr>
     UPLOAD_DIR = ''/srv/app/data/uploads'',
     uuid4 = ''0f8fad5b-d9cb-469f-a165-70867728950e'',
     secure_filename = (\<lambda>s. s),
     save = (\<lambda>f p. Inr ()),
     extract_text = (\<lambda>p. ([''alpha'' @ [CHR 0x0A] @ ''beta'', [], ''gamma''], None)),
     split_text = (\<lambda>t cs ov.
        Inr (enumerate 0 (filter (\<lambda>l. l \<noteq> []) (split_nl t)))),
     embed_texts = (\<lambda>ts mode. Inr (map (\<lambda>t. PList [PInt (int (length t))]) ts)),
     upsert = (\<lambda>vs ns. Inr ()),
     query_chunks = (\<lambda>sid q k.
        Inr (PDict [(''matches'',
                     PList (if sid = PStr ''s1'' then take (nat k) [match1, match2] else []))])),
     answer_with_context = (\<lambda>p c t.
        Inr (if t = 3 / 10
             then (if c = ''General notes about renin'' then cards_prose else cards_json)
             else ''Renin starts the cascade.'')),
     json_loads = (\<lambda>s.
        if s = cards_json
        then Inr (PList [PDict [(''question'', PStr ''Q1''), (''answer'', PStr ''A1'')]])
        else Inl JSONDecodeError),
     int_of_str = digits_value,
     repr_other = (\<lambda>v. ''<value>''),
     exc_str = (\<lambda>e. case e of Upstream msg \<Rightarrow> msg | _ \<Rightarrow> ''error'')
   \<rparr>"

section \<open>Running a handler step by step\<close>

lemma bnd_Inr: "bnd (Inr x, tr) f = (fst (f x), tr @ snd (f x))"
  by (simp add: bnd_def split: prod.splits)

lemma bnd_Inl: "bnd (Inl e, tr) f = (Inl e, tr)"
  by (simp add: bnd_def)

lemma run_Inr: "run (Inr r, tr) = (r, tr)"
  by (simp add: run_def)

lemma run_Inl: "run (Inl e, tr) = (Failure e, tr)"
  by (simp add: run_def)

lemma run_catching_Inr: "run_catching env (Inr r, tr) = (r, tr)"
  by (simp add: run_catching_def)

lemma run_catching_Inl:
  "run_catching env (Inl e, tr) = (Json (PDict [(''error'', PStr (exc_str env e))]) 500, tr)"
  by (simp add: run_catching_def)

lemmas comp_simps = bnd_Inr bnd_Inl run_Inr run_Inl run_catching_Inr run_catching_Inl
  ret_def lift_def call_def get_json_def

section \<open>Well-formed matches\<close>

lemma context_block_match:
  assumes "is_match m"
  shows "context_block env m = Inr (spec_context_block env m)"
  using assms
  by (auto simp: is_match_def context_block_def spec_context_block_def meta_of_def dict_get_def
           split: pyval.splits option.splits)

lemma citation_match:
  assumes "is_match m"
  shows "citation m = Inr (spec_citation m)"
  using assms
  by (auto simp: is_match_def citation_def spec_citation_def meta_of_def fields_of_def dict_get_def
           split: pyval.splits option.splits)

lemma map_e_total:
  assumes "\<forall>x \<in> set xs. f x = Inr (g x)"
  shows "map_e f xs = Inr (map g xs)"
  using assms by (induction xs) auto

lemma strip_Nil: "strip [] = []"
  by (simp add: strip_def)

lemma strip_nonempty: "strip s \<noteq> [] \<Longrightarrow> s \<noteq> []"
  by (auto simp: strip_def)

lemma ask_missing:
  assumes "top_k_ok env kvs" and "field_ok kvs ''question''"
    and "\<not> truthy (dict_get kvs ''student_id'' PNone) \<or> field_text kvs ''question'' = []"
  shows "ask env (Some (PDict kvs)) =
           (Json (PDict [(''error'', PStr ''student_id and question are required'')]) 400, [])"
  using assms
  by (auto simp: ask_def comp_simps dict_get_def top_k_ok_def field_ok_def field_text_def
        strip_Nil split: option.splits pyval.splits sum.splits)

lemma summarize_missing:
  assumes "top_k_ok env kvs" and "field_ok kvs ''topic''"
    and "\<not> truthy (dict_get kvs ''student_id'' PNone) \<or> field_text kvs ''topic'' = []"
  shows "summarize env (Some (PDict kvs)) =
           (Json (PDict [(''error'', PStr ''student_id and topic are required'')]) 400, [])"
  using assms
  by (auto simp: summarize_def comp_simps dict_get_def top_k_ok_def field_ok_def field_text_def
        strip_Nil split: option.splits pyval.splits sum.splits)

lemma flashcards_missing:
  assumes "top_k_ok env kvs" and "field_ok_or_falsy kvs ''topic''"
    and "\<not> truthy (dict_get kvs ''student_id'' PNone) \<or> field_text kvs ''topic'' = []"
  shows "flashcards env (Some (PDict kvs)) =
           (Json (PDict [(''error'', PStr ''student_id and topic are required'')]) 400, [])"
  using assms
  by (auto simp: flashcards_def comp_simps dict_get_def top_k_ok_def field_ok_or_falsy_def
        field_text_def strip_Nil split: option.splits pyval.splits sum.splits)

lemma upload_missing:
  assumes "student_id = None \<or> student_id = Some [] \<or> f = None
           \<or> (\<exists>fs. f = Some fs \<and> filename fs = [])"
  shows "upload env student_id f =
           (Json (PDict [(''error'', PStr ''student_id and file are required'')]) 400, [])"
  using assms
  by (auto simp: upload_def comp_simps split: option.splits)

section \<open>Properties of /ask\<close>

text \<open>
  C4. A valid /ask request (a truthy \<open>student_id\<close>, a question that is not blank, a
  \<open>top_k\<close> that \<^verbatim>\<open>int()\<close> accepts) for which the retriever's result has no match gets
  the fixed answer with an empty \<open>context_used\<close> and status 200; the only call made is
  the query, so the answer generator is not invoked.
\<close>

theorem ask_no_match:
  assumes "map_of kvs ''student_id'' = Some sid" and "truthy sid"
    and "map_of kvs ''question'' = Some (PStr q)" and "strip q \<noteq> []"
    and "py_int env (dict_get kvs ''top_k'' (PInt 6)) = Inr top_k"
    and "query_chunks env sid (strip q) top_k = Inr result"
    and "py_get result ''matches'' (PList []) = Inr matches"
    and "\<not> truthy matches"
  shows "ask env (Some (PDict kvs)) =
           (Json (PDict [(''answer'', PStr not_found_answer), (''context_used'', PList [])]) 200,
            [QueryChunks sid (strip q) top_k])
         \<and> \<not> list_ex is_answer_call (snd (ask env (Some (PDict kvs))))"
  using assms by (simp add: ask_def comp_simps dict_get_def)

theorem ask_no_match_witness:
  "ask stub_env (Some (PDict [(''student_id'', PStr ''s2''),
                              (''question'', PStr '' what is renin? '')])) =
     (Json (PDict [(''answer'', PStr not_found_answer), (''context_used'', PList [])]) 200,
      [QueryChunks (PStr ''s2'') ''what is renin?'' 6])
   \<and> \<not> list_ex is_answer_call
         (snd (ask stub_env (Some (PDict [(''student_id'', PStr ''s2''),
                                          (''question'', PStr '' what is renin? '')]))))"
  using ask_no_match [of "[(''student_id'', PStr ''s2''), (''question'', PStr '' what is renin? '')]"
      "PStr ''s2''" "'' what is renin? ''" stub_env 6 "PDict [(''matches'', PList [])]" "PList []"]
  by (simp add: stub_env_def dict_get_def strip_def isspace_def)

text \<open>
  C9. A valid /ask request whose result holds a non-empty list of matches: the context
  handed to the answer generator is the matches' tagged texts, \<open>[chunk i from f] text\<close>,
  joined by blank lines in the order of the result, and \<open>context_used\<close> has one citation
  per match in the same order, each with \<open>doc_id\<close>, \<open>filename\<close>, \<open>chunk_id\<close> and
  \<open>score\<close>.
\<close>

theorem ask_matches:
  assumes "map_of kvs ''student_id'' = Some sid" and "truthy sid"
    and "map_of kvs ''question'' = Some (PStr q)" and "strip q \<noteq> []"
    and "py_int env (dict_get kvs ''top_k'' (PInt 6)) = Inr top_k"
    and "query_chunks env sid (strip q) top_k = Inr result"
    and "py_get result ''matches'' (PList []) = Inr (PList ms)"
    and "ms \<noteq> []" and "\<forall>m \<in> set ms. is_match m"
    and "answer_with_context env (strip q) (join NL2 (map (spec_context_block env) ms)) (2 / 10)
           = Inr answer"
  shows "ask env (Some (PDict kvs)) =
           (Json (PDict [(''answer'', PStr answer),
                         (''context_used'', PList (map spec_citation ms))]) 200,
            [QueryChunks sid (strip q) top_k,
             AnswerWithContext (strip q) (join NL2 (map (spec_context_block env) ms)) (2 / 10)])"
proof -
  have blocks: "map_e (context_block env) ms = Inr (map (spec_context_block env) ms)"
    using assms(9) by (intro map_e_total) (simp add: context_block_match)
  have cites: "map_e citation ms = Inr (map spec_citation ms)"
    using assms(9) by (intro map_e_total) (simp add: citation_match)
  show ?thesis
    using assms(1-8,10) by (simp add: ask_def comp_simps dict_get_def blocks cites)
qed


theorem ask_matches_witness:
  "ask stub_env (Some (PDict [(''student_id'', PStr ''s1''),
                              (''question'', PStr ''what is renin?'')])) =
     (Json (PDict [(''answer'', PStr ''Renin starts the cascade.''),
                   (''context_used'', PList [
                      PDict [(''doc_id'', PStr ''d1''), (''filename'', PStr ''renal.pdf''),
                             (''chunk_id'', PInt 0), (''score'', PFloat (Finite (9 / 10)))],
                      PDict [(''doc_id'', PStr ''d2''), (''filename'', PStr ''cardio.txt''),
                             (''chunk_id'', PInt 3), (''score'', PFloat (Finite (7 / 10)))]])]) 200,
      [QueryChunks (PStr ''s1'') ''what is renin?'' 6,
       AnswerWithContext ''what is renin?''
         (''[chunk 0 from renal.pdf] Renin is made in the kidney.'' @ NL2
          @ ''[chunk 3 from cardio.txt] ACE makes angiotensin II.'') (2 / 10)])"
  using ask_matches [of "[(''student_id'', PStr ''s1''), (''question'', PStr ''what is renin?'')]"
      "PStr ''s1''" "''what is renin?''" stub_env 6 "PDict [(''matches'', PList [match1, match2])]"
      "[match1, match2]" "''Renin starts the cascade.''"]
  by (simp add: stub_env_def dict_get_def strip_def isspace_def match1_def match2_def
        is_match_def spec_context_block_def spec_citation_def meta_of_def fields_of_def
        str_int_def)


section \<open>Missing fields\<close>

text \<open>
  C1 does not hold of the code. /ask and /summarize evaluate
  \<^verbatim>\<open>int(body.get("top_k", ...))\<close> before they check the required fields, so a request
  without a question or topic and with a \<open>top_k\<close> of \<^verbatim>\<open>null\<close> leaves the handler
  with a \<^verbatim>\<open>TypeError\<close>, a 500, where the check two lines below would have answered
  400; /flashcards catches the same exception and answers 500 itself. A question that is
  \<^verbatim>\<open>null\<close> makes /ask raise on \<^verbatim>\<open>.strip()\<close>, a 500 again, where /flashcards,
  which reads its topic with \<^verbatim>\<open>or ""\<close>, answers the 400.
\<close>

theorem missing_field_500:
  "map_of [(''student_id'', PStr ''s1''), (''top_k'', PNone)] ''question'' = None
   \<and> ask stub_env (Some (PDict [(''student_id'', PStr ''s1''), (''top_k'', PNone)]))
       = (Failure TypeError, [])
   \<and> summarize stub_env (Some (PDict [(''student_id'', PStr ''s1''), (''top_k'', PNone)]))
       = (Failure TypeError, [])
   \<and> status_code (Failure TypeError) = 500
   \<and> status_code (fst (flashcards stub_env
         (Some (PDict [(''student_id'', PStr ''s1''), (''top_k'', PNone)])))) = 500
   \<and> ask stub_env (Some (PDict [(''student_id'', PStr ''s1''), (''question'', PNone)]))
       = (Failure AttributeError, [])
   \<and> status_code (Failure AttributeError) = 500
   \<and> flashcards stub_env (Some (PDict [(''student_id'', PStr ''s1''), (''topic'', PNone)]))
       = (Json (PDict [(''error'', PStr ''student_id and topic are required'')]) 400, [])"
  by (simp add: ask_def summarize_def flashcards_def comp_simps strip_Nil)

theorem missing_field_500_witness:
  "status_code (fst (ask stub_env
       (Some (PDict [(''student_id'', PStr ''s1''), (''top_k'', PNone)])))) = 500
   \<and> status_code (fst (summarize stub_env
       (Some (PDict [(''student_id'', PStr ''s1''), (''top_k'', PNone)])))) = 500
   \<and> status_code (fst (ask stub_env
       (Some (PDict [(''student_id'', PStr ''s1''), (''question'', PNone)])))) = 500
   \<and> status_code (fst (flashcards stub_env
       (Some (PDict [(''student_id'', PStr ''s1''), (''topic'', PNone)])))) = 400"
  using missing_field_500 by simp

text \<open>
  Where the check of the required fields is reached, it answers as it should. A request
  to /upload whose \<open>student_id\<close> or file is absent or empty, and a request to /ask,
  /summarize or /flashcards whose body is a JSON object, whose \<open>top_k\<close> is absent or
  accepted by \<^verbatim>\<open>int()\<close>, whose question or topic is absent or a string (for
  /flashcards, or any falsy value), and whose \<open>student_id\<close> is absent or falsy or whose
  question or topic is absent or blank, gets status 400 with an \<open>error\<close> key, before any
  collaborator is called.
\<close>

lemma missing_field_400:
  "(student_id = None \<or> student_id = Some [] \<or> f = None
      \<or> (\<exists>fs. f = Some fs \<and> filename fs = [])
    \<longrightarrow> upload env student_id f =
          (Json (PDict [(''error'', PStr ''student_id and file are required'')]) 400, []))
   \<and> (top_k_ok env kvs1 \<and> field_ok kvs1 ''question''
       \<and> (\<not> truthy (dict_get kvs1 ''student_id'' PNone) \<or> field_text kvs1 ''question'' = [])
    \<longrightarrow> ask env (Some (PDict kvs1)) =
          (Json (PDict [(''error'', PStr ''student_id and question are required'')]) 400, []))
   \<and> (top_k_ok env kvs2 \<and> field_ok kvs2 ''topic''
       \<and> (\<not> truthy (dict_get kvs2 ''student_id'' PNone) \<or> field_text kvs2 ''topic'' = [])
    \<longrightarrow> summarize env (Some (PDict kvs2)) =
          (Json (PDict [(''error'', PStr ''student_id and topic are required'')]) 400, []))
   \<and> (top_k_ok env kvs3 \<and> field_ok_or_falsy kvs3 ''topic''
       \<and> (\<not> truthy (dict_get kvs3 ''student_id'' PNone) \<or> field_text kvs3 ''topic'' = [])
    \<longrightarrow> flashcards env (Some (PDict kvs3)) =
          (Json (PDict [(''error'', PStr ''student_id and topic are required'')]) 400, []))"
  using upload_missing [of student_id f env] ask_missing [of env kvs1]
    summarize_missing [of env kvs2] flashcards_missing [of env kvs3]
  by blast

lemma missing_field_400_example:
  "upload stub_env None (Some \<lparr>filename = ''notes.txt'', stream = ''abc''\<rparr>) =
     (Json (PDict [(''error'', PStr ''student_id and file are required'')]) 400, [])
   \<and> ask stub_env (Some (PDict [(''student_id'', PStr ''s1''), (''top_k'', PStr ''3'')])) =
     (Json (PDict [(''error'', PStr ''student_id and question are required'')]) 400, [])
   \<and> summarize stub_env (Some (PDict [(''topic'', PStr ''renin'')])) =
     (Json (PDict [(''error'', PStr ''student_id and topic are required'')]) 400, [])
   \<and> flashcards stub_env (Some (PDict [(''student_id'', PStr ''s1''), (''topic'', PNone)])) =
     (Json (PDict [(''error'', PStr ''student_id and topic are required'')]) 400, [])"
  using missing_field_400 [of None "Some \<lparr>filename = ''notes.txt'', stream = ''abc''\<rparr>" stub_env
      "[(''student_id'', PStr ''s1''), (''top_k'', PStr ''3'')]"
      "[(''topic'', PStr ''renin'')]" "[(''student_id'', PStr ''s1''), (''topic'', PNone)]"]
  by (simp add: top_k_ok_def field_ok_def field_ok_or_falsy_def field_text_def dict_get_def
        stub_env_def digits_value_def)

section \<open>Properties of /summarize\<close>

text \<open>What a valid request runs to, when the collaborators return.\<close>

lemma summarize_run:
  assumes "map_of kvs ''student_id'' = Some sid" and "truthy sid"
    and "map_of kvs ''topic'' = Some (PStr t)" and "strip t \<noteq> []"
    and "py_int env (dict_get kvs ''top_k'' (PInt 12)) = Inr top_k"
    and "query_chunks env sid (strip t) top_k = Inr result"
    and "py_get result ''matches'' (PList []) = Inr matches"
  shows "(\<not> truthy matches \<longrightarrow>
            summarize env (Some (PDict kvs)) =
              (Json (PDict [(''summary'', PStr ''No relevant notes found to summarize.'')]) 200,
               [QueryChunks sid (strip t) top_k]))
       \<and> (\<forall>ms summary. matches = PList ms \<and> ms \<noteq> [] \<and> (\<forall>m \<in> set ms. is_match m)
            \<and> answer_with_context env (summarize_prompt (strip t))
                  (join NL2 (map (spec_context_block env) ms)) (2 / 10) = Inr summary
          \<longrightarrow> summarize env (Some (PDict kvs)) =
              (Json (PDict [(''topic'', PStr (strip t)), (''summary'', PStr summary)]) 200,
               [QueryChunks sid (strip t) top_k,
                AnswerWithContext (summarize_prompt (strip t))
                  (join NL2 (map (spec_context_block env) ms)) (2 / 10)]))"
proof (intro conjI impI allI)
  assume "\<not> truthy matches"
  then show "summarize env (Some (PDict kvs)) =
              (Json (PDict [(''summary'', PStr ''No relevant notes found to summarize.'')]) 200,
               [QueryChunks sid (strip t) top_k])"
    using assms by (simp add: summarize_def comp_simps dict_get_def)
next
  fix ms summary
  assume h: "matches = PList ms \<and> ms \<noteq> [] \<and> (\<forall>m \<in> set ms. is_match m)
            \<and> answer_with_context env (summarize_prompt (strip t))
                  (join NL2 (map (spec_context_block env) ms)) (2 / 10) = Inr summary"
  then have blocks: "map_e (context_block env) ms = Inr (map (spec_context_block env) ms)"
    by (intro map_e_total) (simp add: context_block_match)
  show "summarize env (Some (PDict kvs)) =
              (Json (PDict [(''topic'', PStr (strip t)), (''summary'', PStr summary)]) 200,
               [QueryChunks sid (strip t) top_k,
                AnswerWithContext (summarize_prompt (strip t))
                  (join NL2 (map (spec_context_block env) ms)) (2 / 10)])"
    using assms h by (simp add: summarize_def comp_simps dict_get_def blocks)
qed

lemma status_code_Failure: "status_code (Failure e) \<noteq> 200"
  by simp

text \<open>
  C3, as the code has it. Whatever the request and the collaborators, a /summarize
  response with status 200 has a JSON object with the key \<open>summary\<close> as its body. The
  body has the key \<open>topic\<close> as well exactly when the answer generator was called, which
  is when the index returned at least one match; when it returned none, the body is the
  fixed \<open>summary\<close> alone and the query is the only call made.
\<close>

theorem summarize_200_body:
  assumes "status_code (fst (summarize env req)) = 200"
  shows "body_has_key (fst (summarize env req)) ''summary''
       \<and> (body_has_key (fst (summarize env req)) ''topic''
            \<longleftrightarrow> list_ex is_answer_call (snd (summarize env req)))
       \<and> (\<exists>sid topic top_k result matches.
             query_chunks env sid topic top_k = Inr result
           \<and> py_get result ''matches'' (PList []) = Inr matches
           \<and> (if truthy matches
               then \<exists>ctx summary. summarize env req =
                      (Json (PDict [(''topic'', PStr topic), (''summary'', PStr summary)]) 200,
                       [QueryChunks sid topic top_k,
                        AnswerWithContext (summarize_prompt topic) ctx (2 / 10)])
               else summarize env req =
                      (Json (PDict [(''summary'',
                                     PStr ''No relevant notes found to summarize.'')]) 200,
                       [QueryChunks sid topic top_k])))"
proof -
  note defs = summarize_def comp_simps status_code_Failure
  obtain body where req: "req = Some body"
    using assms by (cases req) (auto simp: defs split: if_splits)
  obtain sid where sid: "py_get body ''student_id'' PNone = Inr sid"
    using assms req by (cases "py_get body ''student_id'' PNone") (auto simp: defs split: if_splits)
  obtain t where t: "py_get body ''topic'' (PStr []) = Inr t"
    using assms req sid by (cases "py_get body ''topic'' (PStr [])") (auto simp: defs split: if_splits)
  obtain topic where topic: "py_strip t = Inr topic"
    using assms req sid t by (cases "py_strip t") (auto simp: defs split: if_splits)
  obtain tk where tk: "py_get body ''top_k'' (PInt 12) = Inr tk"
    using assms req sid t topic by (cases "py_get body ''top_k'' (PInt 12)") (auto simp: defs split: if_splits)
  obtain top_k where top_k: "py_int env tk = Inr top_k"
    using assms req sid t topic tk by (cases "py_int env tk") (auto simp: defs split: if_splits)
  note pre = req sid t topic tk top_k
  have valid: "truthy sid \<and> topic \<noteq> []"
    using assms pre by (auto simp: defs split: if_splits)
  obtain result where result: "query_chunks env sid topic top_k = Inr result"
    using assms pre valid by (cases "query_chunks env sid topic top_k") (auto simp: defs split: if_splits)
  obtain matches where matches: "py_get result ''matches'' (PList []) = Inr matches"
    using assms pre valid result
    by (cases "py_get result ''matches'' (PList [])") (auto simp: defs split: if_splits)
  show ?thesis
  proof (cases "truthy matches")
    case False
    then have run: "summarize env req =
        (Json (PDict [(''summary'', PStr ''No relevant notes found to summarize.'')]) 200,
         [QueryChunks sid topic top_k])"
      using pre valid result matches by (simp add: defs)
    have "body_has_key (fst (summarize env req)) ''summary''"
      and "\<not> body_has_key (fst (summarize env req)) ''topic''"
      and "\<not> list_ex is_answer_call (snd (summarize env req))"
      by (simp_all add: run body_has_key_def)
    then show ?thesis
      using result matches False run by (intro conjI exI [of _ sid] exI [of _ topic]
          exI [of _ top_k] exI [of _ result] exI [of _ matches]) simp_all
  next
    case True
    obtain ms where ms: "py_iter matches = Inr ms"
      using assms pre valid result matches True
      by (cases "py_iter matches") (auto simp: defs split: if_splits)
    obtain parts where parts: "map_e (context_block env) ms = Inr parts"
      using assms pre valid result matches True ms
      by (cases "map_e (context_block env) ms") (auto simp: defs split: if_splits)
    obtain summary where summary:
      "answer_with_context env (summarize_prompt topic) (join NL2 parts) (2 / 10) = Inr summary"
      using assms pre valid result matches True ms parts
      by (cases "answer_with_context env (summarize_prompt topic) (join NL2 parts) (2 / 10)")
         (auto simp: defs split: if_splits)
    have run: "summarize env req =
        (Json (PDict [(''topic'', PStr topic), (''summary'', PStr summary)]) 200,
         [QueryChunks sid topic top_k,
          AnswerWithContext (summarize_prompt topic) (join NL2 parts) (2 / 10)])"
      using pre valid result matches True ms parts summary by (simp add: defs)
    have "body_has_key (fst (summarize env req)) ''summary''"
      and "body_has_key (fst (summarize env req)) ''topic''"
      and "list_ex is_answer_call (snd (summarize env req))"
      by (simp_all add: run body_has_key_def)
    moreover have "\<exists>ctx summary. summarize env req =
                      (Json (PDict [(''topic'', PStr topic), (''summary'', PStr summary)]) 200,
                       [QueryChunks sid topic top_k,
                        AnswerWithContext (summarize_prompt topic) ctx (2 / 10)])"
      using run by blast
    ultimately show ?thesis
      using result matches True by (intro conjI exI [of _ sid] exI [of _ topic]
          exI [of _ top_k] exI [of _ result] exI [of _ matches]) simp_all
  qed
qed

theorem summarize_200_body_witness:
  "status_code (fst (summarize stub_env
       (Some (PDict [(''student_id'', PStr ''s2''), (''topic'', PStr ''renin'')])))) = 200
   \<and> body_has_key (fst (summarize stub_env
       (Some (PDict [(''student_id'', PStr ''s2''), (''topic'', PStr ''renin'')])))) ''summary''
   \<and> \<not> body_has_key (fst (summarize stub_env
       (Some (PDict [(''student_id'', PStr ''s2''), (''topic'', PStr ''renin'')])))) ''topic''
   \<and> status_code (fst (summarize stub_env
       (Some (PDict [(''student_id'', PStr ''s1''), (''topic'', PStr ''renin'')])))) = 200
   \<and> body_has_key (fst (summarize stub_env
       (Some (PDict [(''student_id'', PStr ''s1''), (''topic'', PStr ''renin'')])))) ''summary''
   \<and> body_has_key (fst (summarize stub_env
       (Some (PDict [(''student_id'', PStr ''s1''), (''topic'', PStr ''renin'')])))) ''topic''"
proof -
  let ?none = "Some (PDict [(''student_id'', PStr ''s2''), (''topic'', PStr ''renin'')])"
  let ?some = "Some (PDict [(''student_id'', PStr ''s1''), (''topic'', PStr ''renin'')])"
  have run_none: "summarize stub_env ?none =
      (Json (PDict [(''summary'', PStr ''No relevant notes found to summarize.'')]) 200,
       [QueryChunks (PStr ''s2'') ''renin'' 12])"
    by (simp add: summarize_def comp_simps stub_env_def strip_def isspace_def)
  have run_some: "summarize stub_env ?some =
      (Json (PDict [(''topic'', PStr ''renin''),
                    (''summary'', PStr ''Renin starts the cascade.'')]) 200,
       [QueryChunks (PStr ''s1'') ''renin'' 12,
        AnswerWithContext (summarize_prompt ''renin'')
          (''[chunk 0 from renal.pdf] Renin is made in the kidney.'' @ NL2
           @ ''[chunk 3 from cardio.txt] ACE makes angiotensin II.'') (2 / 10)])"
    by (simp add: summarize_def comp_simps stub_env_def strip_def isspace_def match1_def
          match2_def context_block_def str_int_def)
  have ok_none: "status_code (fst (summarize stub_env ?none)) = 200"
    and ok_some: "status_code (fst (summarize stub_env ?some)) = 200"
    and not_called: "\<not> list_ex is_answer_call (snd (summarize stub_env ?none))"
    and called: "list_ex is_answer_call (snd (summarize stub_env ?some))"
    by (simp_all add: run_none run_some)
  show ?thesis
    using summarize_200_body [OF ok_none] summarize_200_body [OF ok_some]
      ok_none ok_some not_called called
    by blast
qed

text \<open>
  C3 as stated fails on a request with no match: the body of the 200 response has no
  \<open>topic\<close> key.
\<close>

theorem summarize_no_topic_counterexample:
  "status_code (fst (summarize stub_env
       (Some (PDict [(''student_id'', PStr ''s2''), (''topic'', PStr ''renin'')])))) = 200
   \<and> \<not> body_has_key (fst (summarize stub_env
       (Some (PDict [(''student_id'', PStr ''s2''), (''topic'', PStr ''renin'')])))) ''topic''"
  by (simp add: summarize_def comp_simps stub_env_def strip_def isspace_def body_has_key_def)

section \<open>Properties of /flashcards\<close>

text \<open>The lines of a text: joined by newlines they give the text back, and none holds a
  newline.\<close>

lemma split_nl_nonempty: "split_nl s \<noteq> []"
  by (induction s) (auto split: list.splits)

lemma split_nl_join: "join [CHR 0x0A] (split_nl s) = s"
proof (induction s)
  case Nil
  then show ?case by simp
next
  case (Cons c cs)
  obtain l ls where eq: "split_nl cs = l # ls"
    using split_nl_nonempty [of cs] by (cases "split_nl cs") auto
  show ?case
    using Cons eq by (cases ls) auto
qed

lemma split_nl_no_newline: "l \<in> set (split_nl s) \<Longrightarrow> CHR 0x0A \<notin> set l"
  by (induction s arbitrary: l) (auto split: if_splits list.splits)

text \<open>
  C5. A valid /flashcards request whose answer generator returns \<open>response\<close>: when
  \<^verbatim>\<open>json.loads\<close> raises on it, the \<open>flashcards\<close> value is the list of the response's
  lines that hold a question mark, in order, each stripped and paired with an empty
  answer; when \<^verbatim>\<open>json.loads\<close> returns a value, that value is the \<open>flashcards\<close> value,
  unchanged.
\<close>

theorem flashcards_parse:
  assumes "map_of kvs ''student_id'' = Some sid" and "truthy sid"
    and "map_of kvs ''topic'' = Some (PStr t)" and "strip t \<noteq> []"
    and "py_int env (dict_get kvs ''top_k'' (PInt 10)) = Inr top_k"
    and "query_chunks env sid (strip t) top_k = Inr result"
    and "py_get result ''matches'' (PList []) = Inr matches"
    and "flashcards_ctx (strip t) matches = Inr ctx"
    and "answer_with_context env (flashcards_prompt (strip t) ctx) ctx (3 / 10) = Inr response"
  shows "(\<forall>e. json_loads env response = Inl e \<longrightarrow>
            fst (flashcards env (Some (PDict kvs))) =
              Json (PDict [(''flashcards'',
                PList (map (\<lambda>line. PDict [(''question'', PStr (strip line)),
                                            (''answer'', PStr [])])
                         (filter (\<lambda>line. CHR ''?'' \<in> set line) (split_nl response))))]) 200)
       \<and> (\<forall>v. json_loads env response = Inr v \<longrightarrow>
            fst (flashcards env (Some (PDict kvs))) = Json (PDict [(''flashcards'', v)]) 200)"
proof -
  have t: "t \<noteq> []" using assms(4) by (rule strip_nonempty)
  show ?thesis
    using assms t
    by (simp add: flashcards_def comp_simps dict_get_def parse_flashcards_def)
qed

theorem flashcards_parse_witness:
  "fst (flashcards stub_env (Some (PDict [(''student_id'', PStr ''s2''),
                                          (''topic'', PStr ''renin'')]))) =
     Json (PDict [(''flashcards'',
       PList [PDict [(''question'', PStr ''What is renin?''), (''answer'', PStr [])],
              PDict [(''question'', PStr ''Where is it made?''), (''answer'', PStr [])]])]) 200
   \<and> fst (flashcards stub_env (Some (PDict [(''student_id'', PStr ''s1''),
                                            (''topic'', PStr ''renin'')]))) =
     Json (PDict [(''flashcards'',
       PList [PDict [(''question'', PStr ''Q1''), (''answer'', PStr ''A1'')]])]) 200"
  using flashcards_parse [of "[(''student_id'', PStr ''s2''), (''topic'', PStr ''renin'')]"
      "PStr ''s2''" "''renin''" stub_env 10 "PDict [(''matches'', PList [])]" "PList []"
      "''General notes about renin''" cards_prose]
    flashcards_parse [of "[(''student_id'', PStr ''s1''), (''topic'', PStr ''renin'')]"
      "PStr ''s1''" "''renin''" stub_env 10 "PDict [(''matches'', PList [match1, match2])]"
      "PList [match1, match2]"
      "''Renin is made in the kidney.'' @ NL2 @ ''ACE makes angiotensin II.''" cards_json]
  by (simp add: stub_env_def dict_get_def strip_def isspace_def match1_def match2_def
        flashcards_ctx_def match_text_def py_join_def cards_prose_def cards_json_def NL2_def)

text \<open>
  C6, as the code has it. A valid /flashcards request whose result has no match: the
  answer generator is still called, once, and the context it gets is
  \<open>General notes about\<close> followed by the stripped topic, with a capital G.
\<close>

theorem flashcards_placeholder:
  assumes "map_of kvs ''student_id'' = Some sid" and "truthy sid"
    and "map_of kvs ''topic'' = Some (PStr t)" and "strip t \<noteq> []"
    and "py_int env (dict_get kvs ''top_k'' (PInt 10)) = Inr top_k"
    and "query_chunks env sid (strip t) top_k = Inr result"
    and "py_get result ''matches'' (PList []) = Inr matches"
    and "\<not> truthy matches"
  shows "snd (flashcards env (Some (PDict kvs))) =
           [QueryChunks sid (strip t) top_k,
            AnswerWithContext
              (flashcards_prompt (strip t) (''General notes about '' @ strip t))
              (''General notes about '' @ strip t) (3 / 10)]
         \<and> contexts_passed (snd (flashcards env (Some (PDict kvs)))) =
           [''General notes about '' @ strip t]"
proof -
  have t: "t \<noteq> []" using assms(4) by (rule strip_nonempty)
  show ?thesis
  proof (cases "answer_with_context env
                  (flashcards_prompt (strip t) (''General notes about '' @ strip t))
                  (''General notes about '' @ strip t) (3 / 10)")
    case (Inl e)
    then show ?thesis
      using assms t by (simp add: flashcards_def comp_simps dict_get_def flashcards_ctx_def)
  next
    case (Inr r)
    then show ?thesis
      using assms t by (simp add: flashcards_def comp_simps dict_get_def flashcards_ctx_def)
  qed
qed

theorem flashcards_placeholder_witness:
  "snd (flashcards stub_env (Some (PDict [(''student_id'', PStr ''s2''),
                                          (''topic'', PStr '' renin'')]))) =
     [QueryChunks (PStr ''s2'') ''renin'' 10,
      AnswerWithContext (flashcards_prompt ''renin'' ''General notes about renin'')
        ''General notes about renin'' (3 / 10)]
   \<and> contexts_passed (snd (flashcards stub_env (Some (PDict [(''student_id'', PStr ''s2''),
                                          (''topic'', PStr '' renin'')])))) =
     [''General notes about renin'']"
  using flashcards_placeholder [of "[(''student_id'', PStr ''s2''), (''topic'', PStr '' renin'')]"
      "PStr ''s2''" "'' renin''" stub_env 10 "PDict [(''matches'', PList [])]" "PList []"]
  by (simp add: stub_env_def dict_get_def strip_def isspace_def)

text \<open>
  C6 as stated fails on the spelling of the placeholder: the context passed is not
  \<open>general notes about renin\<close> in lower case.
\<close>

theorem flashcards_placeholder_counterexample:
  "contexts_passed (snd (flashcards stub_env
       (Some (PDict [(''student_id'', PStr ''s2''), (''topic'', PStr ''renin'')]))))
   \<noteq> [''general notes about renin'']"
  by (simp add: flashcards_def comp_simps stub_env_def strip_def isspace_def
        flashcards_ctx_def)

section \<open>Properties of /upload\<close>

subsection \<open>The two loops\<close>

lemma add_chunks_eq:
  "add_chunks file_id fname ps (vs, k) =
     (vs @ map (\<lambda>(i, p). vector_record file_id fname i (snd (fst p)) (snd p)) (enumerate k ps),
      k + length ps)"
  by (induction ps arbitrary: vs k) auto

lemma enumerate_append:
  "enumerate k (xs @ ys) = enumerate k xs @ enumerate (k + length xs) ys"
  by (simp add: enumerate_append_eq)

lemma upload_pages_ok:
  assumes "\<forall>p \<in> set pages. page_ok env p"
  shows "upload_pages env file_id fname pages None (vs, k) =
           (Inr (vs @ map (\<lambda>(i, p). vector_record file_id fname i (snd (fst p)) (snd p))
                         (enumerate k (concat (map (page_pairs env) pages))),
                 k + length (concat (map (page_pairs env) pages))),
            concat (map (page_events env) pages))"
  using assms
proof (induction pages arbitrary: vs k)
  case Nil
  then show ?case by (simp add: ret_def)
next
  case (Cons p pages)
  from Cons.prems obtain cs es where
    cs: "split_text env p 1000 200 = Inr cs" and
    es: "embed_texts env (map snd cs) ''retrieval_document'' = Inr es"
    by (auto simp: page_ok_def split: sum.splits)
  have pairs: "page_pairs env p = zip cs es" and
    evs: "page_events env p = [SplitText p 1000 200, EmbedTexts (map snd cs) ''retrieval_document'']"
    using cs es by (simp_all add: page_pairs_def page_events_def)
  have rest: "\<forall>q \<in> set pages. page_ok env q" using Cons.prems by simp
  show ?case
    by (simp add: cs es pairs evs comp_simps add_chunks_eq Cons.IH [OF rest]
          enumerate_append add.assoc)
qed

lemma upload_success:
  assumes "sid \<noteq> []" and "filename fs \<noteq> []"
    and "save env fs (path_join (UPLOAD_DIR env)
           (uuid4 env @ ''_'' @ secure_filename env (filename fs))) = Inr ()"
    and "extract_text env (path_join (UPLOAD_DIR env)
           (uuid4 env @ ''_'' @ secure_filename env (filename fs))) = (pages, None)"
    and "\<forall>p \<in> set pages. page_ok env p"
    and "concat (map (page_pairs env) pages) \<noteq> [] \<longrightarrow>
         upsert env (records_of (uuid4 env) (secure_filename env (filename fs))
                       (concat (map (page_pairs env) pages))) sid = Inr ()"
  shows "upload env (Some sid) (Some fs) =
           (Json (PDict [(''ok'', PBool True),
                         (''doc_id'', PStr (uuid4 env)),
                         (''num_chunks'', PInt (int (length (concat (map (page_pairs env) pages))))),
                         (''filename'', PStr (secure_filename env (filename fs)))]) 200,
            [Uuid4,
             Save (path_join (UPLOAD_DIR env)
                     (uuid4 env @ ''_'' @ secure_filename env (filename fs))),
             ExtractText (path_join (UPLOAD_DIR env)
                     (uuid4 env @ ''_'' @ secure_filename env (filename fs)))]
            @ concat (map (page_events env) pages)
            @ (if concat (map (page_pairs env) pages) = [] then []
               else [Upsert (records_of (uuid4 env) (secure_filename env (filename fs))
                               (concat (map (page_pairs env) pages))) sid]))"
proof -
  define ps where "ps = concat (map (page_pairs env) pages)"
  define file_id where "file_id = uuid4 env"
  define fname where "fname = secure_filename env (filename fs)"
  have loop: "upload_pages env file_id fname pages None ([], 0) =
                (Inr (records_of file_id fname ps, length ps),
                 concat (map (page_events env) pages))"
    using upload_pages_ok [OF assms(5), of file_id fname "[]" 0]
    by (simp add: records_of_def ps_def)
  have "length (records_of file_id fname ps) = length ps"
    by (simp add: records_of_def)
  then have nonempty: "records_of file_id fname ps = [] \<longleftrightarrow> ps = []"
    by (metis length_0_conv)
  show ?thesis
  proof (cases "ps = []")
    case True
    then show ?thesis
      using assms(1-4) loop nonempty
      by (simp add: upload_def comp_simps Let_def ps_def [symmetric] file_id_def [symmetric]
            fname_def [symmetric])
  next
    case False
    then have "upsert env (records_of file_id fname ps) sid = Inr ()"
      using assms(6) by (simp add: ps_def file_id_def fname_def)
    then show ?thesis
      using assms(1-4) loop nonempty False
      by (simp add: upload_def comp_simps Let_def ps_def [symmetric] file_id_def [symmetric]
            fname_def [symmetric])
  qed
qed

subsection \<open>What a run stores\<close>

lemma upserted_append: "upserted (xs @ ys) = upserted xs @ upserted ys"
  by (induction xs rule: upserted.induct) auto

lemma upserted_page_events: "upserted (concat (map (page_events env) pages)) = []"
  by (induction pages) (auto simp: upserted_append page_events_def split: sum.splits)

lemma no_upsert_page_events: "\<not> list_ex is_upsert (concat (map (page_events env) pages))"
  by (induction pages) (auto simp: page_events_def split: sum.splits)

lemma records_of_nth:
  assumes "k < length ps"
  shows "records_of file_id fname ps ! k =
           vector_record file_id fname k (snd (fst (ps ! k))) (snd (ps ! k))"
  using assms by (simp add: records_of_def nth_enumerate_eq)

lemma stored_vector_record:
  "stored_chunk_id (vector_record file_id fname k text vec) = PInt (int k)"
  "stored_id (vector_record file_id fname k text vec) = PStr (file_id @ ''-'' @ str_int (int k))"
  "stored_text (vector_record file_id fname k text vec) = PStr (take 1200 text)"
  by (simp_all add: stored_chunk_id_def stored_id_def stored_text_def vector_record_def
        meta_of_def fields_of_def dict_get_def)

lemma text_bounded_vector_record: "text_bounded (vector_record file_id fname k text vec)"
  by (simp add: text_bounded_def stored_vector_record)

lemma add_chunks_bounded:
  assumes "\<forall>r \<in> set (fst acc). text_bounded r"
  shows "\<forall>r \<in> set (fst (add_chunks file_id fname ps acc)). text_bounded r"
  using assms
  by (cases acc) (auto simp: add_chunks_eq text_bounded_vector_record)

lemma upload_pages_bounded:
  assumes "\<forall>r \<in> set (fst acc). text_bounded r"
  shows "upserted (snd (upload_pages env file_id fname pages fail acc)) = []
       \<and> (\<forall>acc'. fst (upload_pages env file_id fname pages fail acc) = Inr acc'
            \<longrightarrow> (\<forall>r \<in> set (fst acc'). text_bounded r))"
  using assms
proof (induction pages arbitrary: acc)
  case Nil
  then show ?case by (cases fail) (auto simp: comp_simps)
next
  case (Cons p pages)
  show ?case
  proof (cases "split_text env p 1000 200")
    case (Inl e)
    then show ?thesis by (simp add: comp_simps)
  next
    case cs: (Inr cs)
    show ?thesis
    proof (cases "embed_texts env (map snd cs) ''retrieval_document''")
      case (Inl e)
      then show ?thesis using cs by (simp add: comp_simps)
    next
      case es: (Inr es)
      have "\<forall>r \<in> set (fst (add_chunks file_id fname (zip cs es) acc)). text_bounded r"
        using Cons.prems by (rule add_chunks_bounded)
      from Cons.IH [OF this] show ?thesis
        using cs es by (simp add: comp_simps)
    qed
  qed
qed

lemma split_nl_single: "CHR 0x0A \<notin> set s \<Longrightarrow> split_nl s = [s]"
  by (induction s) auto

text \<open>
  C7. An upload that succeeds: both fields present, the file saved, the parser, the
  chunker and the embedding client returning for every page, the index accepting the
  records. With \<open>ps\<close> the chunks in production order over all pages, each with its
  vector, the index gets one list of \<open>length ps\<close> records, \<open>num_chunks\<close> is
  \<open>length ps\<close>, and the \<open>k\<close>-th record has chunk index \<open>k\<close>, the id made of the
  document id, a dash and \<open>k\<close>, and the text of the \<open>k\<close>-th chunk: the counter starts
  at 0 and runs on across pages, whatever local index the chunker gave.
\<close>

theorem chunk_counter_contiguous:
  assumes "sid \<noteq> []" and "filename fs \<noteq> []"
    and "file_id = uuid4 env" and "fname = secure_filename env (filename fs)"
    and "save env fs (path_join (UPLOAD_DIR env) (file_id @ ''_'' @ fname)) = Inr ()"
    and "extract_text env (path_join (UPLOAD_DIR env) (file_id @ ''_'' @ fname)) = (pages, None)"
    and "\<forall>p \<in> set pages. page_ok env p"
    and "ps = concat (map (page_pairs env) pages)"
    and "recs = records_of file_id fname ps"
    and "ps \<noteq> [] \<longrightarrow> upsert env recs sid = Inr ()"
  shows "fst (upload env (Some sid) (Some fs)) =
           Json (PDict [(''ok'', PBool True), (''doc_id'', PStr file_id),
                        (''num_chunks'', PInt (int (length ps))),
                        (''filename'', PStr fname)]) 200
       \<and> upserted (snd (upload env (Some sid) (Some fs))) = (if ps = [] then [] else [recs])
       \<and> length recs = length ps
       \<and> (\<forall>k < length ps.
             stored_chunk_id (recs ! k) = PInt (int k)
           \<and> stored_id (recs ! k) = PStr (file_id @ ''-'' @ str_int (int k))
           \<and> stored_text (recs ! k) = PStr (take 1200 (snd (fst (ps ! k)))))"
proof -
  have run: "upload env (Some sid) (Some fs) =
           (Json (PDict [(''ok'', PBool True), (''doc_id'', PStr file_id),
                         (''num_chunks'', PInt (int (length ps))),
                         (''filename'', PStr fname)]) 200,
            [Uuid4, Save (path_join (UPLOAD_DIR env) (file_id @ ''_'' @ fname)),
             ExtractText (path_join (UPLOAD_DIR env) (file_id @ ''_'' @ fname))]
            @ concat (map (page_events env) pages)
            @ (if ps = [] then [] else [Upsert recs sid]))"
    using upload_success [of sid fs env pages] assms by simp
  have "upserted (snd (upload env (Some sid) (Some fs))) = (if ps = [] then [] else [recs])"
    by (simp add: run upserted_append upserted_page_events)
  moreover have "length recs = length ps"
    using assms(9) by (simp add: records_of_def)
  moreover have "\<forall>k < length ps.
             stored_chunk_id (recs ! k) = PInt (int k)
           \<and> stored_id (recs ! k) = PStr (file_id @ ''-'' @ str_int (int k))
           \<and> stored_text (recs ! k) = PStr (take 1200 (snd (fst (ps ! k))))"
    using assms(9) by (simp add: records_of_nth stored_vector_record)
  ultimately show ?thesis by (simp add: run)
qed

theorem chunk_counter_contiguous_witness:
  "fst (upload stub_env (Some ''s1'') (Some \<lparr>filename = ''notes.txt'', stream = ''abc''\<rparr>)) =
     Json (PDict [(''ok'', PBool True),
                  (''doc_id'', PStr ''0f8fad5b-d9cb-469f-a165-70867728950e''),
                  (''num_chunks'', PInt 3),
                  (''filename'', PStr ''notes.txt'')]) 200
   \<and> upserted (snd (upload stub_env (Some ''s1'')
                      (Some \<lparr>filename = ''notes.txt'', stream = ''abc''\<rparr>))) =
     [records_of ''0f8fad5b-d9cb-469f-a165-70867728950e'' ''notes.txt''
        [((0, ''alpha''), PList [PInt 5]), ((1, ''beta''), PList [PInt 4]),
         ((0, ''gamma''), PList [PInt 5])]]
   \<and> stored_chunk_id
        (records_of ''0f8fad5b-d9cb-469f-a165-70867728950e'' ''notes.txt''
           [((0, ''alpha''), PList [PInt 5]), ((1, ''beta''), PList [PInt 4]),
            ((0, ''gamma''), PList [PInt 5])] ! 2) = PInt 2
   \<and> stored_id
        (records_of ''0f8fad5b-d9cb-469f-a165-70867728950e'' ''notes.txt''
           [((0, ''alpha''), PList [PInt 5]), ((1, ''beta''), PList [PInt 4]),
            ((0, ''gamma''), PList [PInt 5])] ! 2) =
       PStr ''0f8fad5b-d9cb-469f-a165-70867728950e-2''
   \<and> stored_text
        (records_of ''0f8fad5b-d9cb-469f-a165-70867728950e'' ''notes.txt''
           [((0, ''alpha''), PList [PInt 5]), ((1, ''beta''), PList [PInt 4]),
            ((0, ''gamma''), PList [PInt 5])] ! 2) = PStr ''gamma''"
  using chunk_counter_contiguous [of "''s1''" "\<lparr>filename = ''notes.txt'', stream = ''abc''\<rparr>"
          "''0f8fad5b-d9cb-469f-a165-70867728950e''" stub_env "''notes.txt''"
          "[''alpha'' @ [CHR 0x0A] @ ''beta'', [], ''gamma'']"
          "[((0, ''alpha''), PList [PInt 5]), ((1, ''beta''), PList [PInt 4]),
            ((0, ''gamma''), PList [PInt 5])]"
          "records_of ''0f8fad5b-d9cb-469f-a165-70867728950e'' ''notes.txt''
           [((0, ''alpha''), PList [PInt 5]), ((1, ''beta''), PList [PInt 4]),
            ((0, ''gamma''), PList [PInt 5])]"]
  by (simp add: stub_env_def page_ok_def page_pairs_def enumerate_eq_zip str_int_def)

text \<open>
  C8. Whatever the request and whatever the collaborators do, every record of every
  list handed to the index stores a text of at most 1200 characters.
\<close>

theorem stored_text_bounded:
  "\<forall>vs \<in> set (upserted (snd (upload env student_id f))). \<forall>r \<in> set vs. text_bounded r"
proof (cases "\<exists>sid fs. student_id = Some sid \<and> f = Some fs \<and> sid \<noteq> [] \<and> filename fs \<noteq> []")
  case False
  then have "snd (upload env student_id f) = []"
    by (auto simp: upload_def comp_simps split: option.splits)
  then show ?thesis by simp
next
  case True
  then obtain sid fs where req: "student_id = Some sid" "f = Some fs" "sid \<noteq> []"
    "filename fs \<noteq> []" by blast
  let ?fname = "secure_filename env (filename fs)"
  let ?path = "path_join (UPLOAD_DIR env) (uuid4 env @ ''_'' @ ?fname)"
  obtain r tr where loop:
    "upload_pages env (uuid4 env) ?fname (fst (extract_text env ?path))
       (snd (extract_text env ?path)) ([], 0) = (r, tr)"
    by (cases "upload_pages env (uuid4 env) ?fname (fst (extract_text env ?path))
       (snd (extract_text env ?path)) ([], 0)") auto
  have inv: "upserted tr = [] \<and> (\<forall>acc'. r = Inr acc' \<longrightarrow> (\<forall>x \<in> set (fst acc'). text_bounded x))"
    using upload_pages_bounded [of "([], 0)" env "uuid4 env" ?fname
        "fst (extract_text env ?path)" "snd (extract_text env ?path)"] loop
    by simp
  show ?thesis
  proof (cases "save env fs ?path")
    case (Inl e)
    then show ?thesis
      using req by (simp add: upload_def comp_simps Let_def)
  next
    case saved: (Inr u)
    show ?thesis
    proof (cases r)
      case (Inl e)
      then show ?thesis
        using req saved loop inv
        by (simp add: upload_def comp_simps Let_def upserted_append)
    next
      case (Inr acc)
      then have bounded: "\<forall>x \<in> set (fst acc). text_bounded x"
        using inv by simp
      show ?thesis
      proof (cases "fst acc = []")
        case True
        then show ?thesis
          using req saved loop inv Inr
          by (simp add: upload_def comp_simps Let_def upserted_append)
      next
        case False
        then show ?thesis
          using req saved loop inv Inr bounded
          by (cases "upsert env (fst acc) sid")
             (simp_all add: upload_def comp_simps Let_def upserted_append)
      qed
    qed
  qed
qed

theorem stored_text_bounded_witness:
  "upserted (snd (upload (stub_env\<lparr>extract_text := (\<lambda>p. ([replicate 1500 CHR ''x''], None))\<rparr>)
                    (Some ''s1'') (Some \<lparr>filename = ''long.txt'', stream = ''x''\<rparr>))) =
     [[vector_record ''0f8fad5b-d9cb-469f-a165-70867728950e'' ''long.txt'' 0
         (replicate 1500 CHR ''x'') (PList [PInt 1500])]]
   \<and> text_bounded (vector_record ''0f8fad5b-d9cb-469f-a165-70867728950e'' ''long.txt'' 0
         (replicate 1500 CHR ''x'') (PList [PInt 1500]))
   \<and> stored_text (vector_record ''0f8fad5b-d9cb-469f-a165-70867728950e'' ''long.txt'' 0
         (replicate 1500 CHR ''x'') (PList [PInt 1500])) = PStr (replicate 1200 CHR ''x'')"
proof -
  have run: "upserted (snd (upload (stub_env\<lparr>extract_text := (\<lambda>p. ([replicate 1500 CHR ''x''], None))\<rparr>)
                    (Some ''s1'') (Some \<lparr>filename = ''long.txt'', stream = ''x''\<rparr>))) =
     [[vector_record ''0f8fad5b-d9cb-469f-a165-70867728950e'' ''long.txt'' 0
         (replicate 1500 CHR ''x'') (PList [PInt 1500])]]"
    by (simp add: upload_def comp_simps stub_env_def Let_def split_nl_single)
  show ?thesis
    using stored_text_bounded [of "stub_env\<lparr>extract_text := (\<lambda>p. ([replicate 1500 CHR ''x''], None))\<rparr>"
        "Some ''s1''" "Some \<lparr>filename = ''long.txt'', stream = ''x''\<rparr>"] run
    by (simp add: stored_vector_record)
qed

text \<open>
  C10. An upload whose pages all give no chunk (and the parser, the chunker and the
  embedding client return): the index is not called, and the response is 200 with
  \<open>ok\<close> true, \<open>num_chunks\<close> 0 and the id generated for this request.
\<close>

theorem upload_zero_chunks:
  assumes "sid \<noteq> []" and "filename fs \<noteq> []"
    and "save env fs (path_join (UPLOAD_DIR env)
           (uuid4 env @ ''_'' @ secure_filename env (filename fs))) = Inr ()"
    and "extract_text env (path_join (UPLOAD_DIR env)
           (uuid4 env @ ''_'' @ secure_filename env (filename fs))) = (pages, None)"
    and "\<forall>p \<in> set pages. page_ok env p \<and> page_pairs env p = []"
  shows "fst (upload env (Some sid) (Some fs)) =
           Json (PDict [(''ok'', PBool True), (''doc_id'', PStr (uuid4 env)),
                        (''num_chunks'', PInt 0),
                        (''filename'', PStr (secure_filename env (filename fs)))]) 200
       \<and> \<not> list_ex is_upsert (snd (upload env (Some sid) (Some fs)))
       \<and> list_ex (\<lambda>ev. ev = Uuid4) (snd (upload env (Some sid) (Some fs)))"
proof -
  have empty: "concat (map (page_pairs env) pages) = []"
    using assms(5) by simp
  have ok: "\<forall>p \<in> set pages. page_ok env p"
    using assms(5) by simp
  show ?thesis
    using upload_success [OF assms(1-4) ok] empty no_upsert_page_events [of env pages]
    by simp
qed

theorem upload_zero_chunks_witness:
  "fst (upload (stub_env\<lparr>extract_text := (\<lambda>p. ([[], [CHR 0x0A]], None))\<rparr>) (Some ''s1'')
          (Some \<lparr>filename = ''blank.txt'', stream = [CHR 0x0A]\<rparr>)) =
     Json (PDict [(''ok'', PBool True),
                  (''doc_id'', PStr ''0f8fad5b-d9cb-469f-a165-70867728950e''),
                  (''num_chunks'', PInt 0),
                  (''filename'', PStr ''blank.txt'')]) 200
   \<and> \<not> list_ex is_upsert
         (snd (upload (stub_env\<lparr>extract_text := (\<lambda>p. ([[], [CHR 0x0A]], None))\<rparr>) (Some ''s1'')
                 (Some \<lparr>filename = ''blank.txt'', stream = [CHR 0x0A]\<rparr>)))
   \<and> list_ex (\<lambda>ev. ev = Uuid4)
         (snd (upload (stub_env\<lparr>extract_text := (\<lambda>p. ([[], [CHR 0x0A]], None))\<rparr>) (Some ''s1'')
                 (Some \<lparr>filename = ''blank.txt'', stream = [CHR 0x0A]\<rparr>)))"
  using upload_zero_chunks [of "''s1''" "\<lparr>filename = ''blank.txt'', stream = [CHR 0x0A]\<rparr>"
      "stub_env\<lparr>extract_text := (\<lambda>p. ([[], [CHR 0x0A]], None))\<rparr>" "[[], [CHR 0x0A]]"]
  by (simp add: stub_env_def page_ok_def page_pairs_def)

text \<open>
  C2 does not hold of the code: \<open>allowed\<close> is defined and never called by
  \<open>upload\<close>. A file named \<open>malware.exe\<close>, whose extension is not allowed, is saved,
  parsed, embedded and stored like any other.
\<close>

theorem upload_ignores_extension:
  "\<not> allowed ''malware.exe''
   \<and> fst (upload stub_env (Some ''s1'') (Some \<lparr>filename = ''malware.exe'', stream = ''MZ''\<rparr>)) =
       Json (PDict [(''ok'', PBool True),
                    (''doc_id'', PStr ''0f8fad5b-d9cb-469f-a165-70867728950e''),
                    (''num_chunks'', PInt 3),
                    (''filename'', PStr ''malware.exe'')]) 200
   \<and> list_ex is_upsert
        (snd (upload stub_env (Some ''s1'') (Some \<lparr>filename = ''malware.exe'', stream = ''MZ''\<rparr>)))"
proof -
  have "\<not> allowed ''malware.exe''"
    by (simp add: allowed_def splitext_def rfind_def lower_def lower_char_def ALLOWED_EXT_def
          Let_def)
  moreover have "upload stub_env (Some ''s1'') (Some \<lparr>filename = ''malware.exe'', stream = ''MZ''\<rparr>) =
       (Json (PDict [(''ok'', PBool True),
                    (''doc_id'', PStr ''0f8fad5b-d9cb-469f-a165-70867728950e''),
                    (''num_chunks'', PInt 3),
                    (''filename'', PStr ''malware.exe'')]) 200,
        [Uuid4,
         Save ''/srv/app/data/uploads/0f8fad5b-d9cb-469f-a165-70867728950e_malware.exe'',
         ExtractText ''/srv/app/data/uploads/0f8fad5b-d9cb-469f-a165-70867728950e_malware.exe'',
         SplitText (''alpha'' @ [CHR 0x0A] @ ''beta'') 1000 200,
         EmbedTexts [''alpha'', ''beta''] ''retrieval_document'',
         SplitText [] 1000 200, EmbedTexts [] ''retrieval_document'',
         SplitText ''gamma'' 1000 200, EmbedTexts [''gamma''] ''retrieval_document'',
         Upsert (records_of ''0f8fad5b-d9cb-469f-a165-70867728950e'' ''malware.exe''
                   [((0, ''alpha''), PList [PInt 5]), ((1, ''beta''), PList [PInt 4]),
                    ((0, ''gamma''), PList [PInt 5])]) ''s1''])"
    by (simp add: upload_def comp_simps stub_env_def Let_def path_join_def records_of_def
          add_chunks_eq enumerate_eq_zip)
  ultimately show ?thesis by simp
qed

end
